theory Spec2Isabelle
  imports Complex_Main
begin

section \<open>Yacht propulsion selector: the sizing and selection engine of app.py\<close>

text \<open>
  The development embeds the computational core of \<^verbatim>\<open>app.py\<close>: the two catalogs, the
  \<^verbatim>\<open>BoatSpecs\<close> dataclass, \<^verbatim>\<open>estimate_total_power_kw\<close>, \<^verbatim>\<open>choose_target_prop_rpm\<close>,
  \<^verbatim>\<open>nearest_ratio\<close> and \<^verbatim>\<open>select_propulsion\<close>.

  Conventions of the embedding.
  \<^item> Python \<^verbatim>\<open>float\<close> values are idealised as \<^typ>\<open>real\<close>: rounding, overflow, infinities
    and NaN are outside the model. Python \<^verbatim>\<open>int\<close> values are \<^typ>\<open>int\<close>.
  \<^item> \<^verbatim>\<open>D ** (2/3)\<close> is \<open>D powr (2/3)\<close>. For \<open>D < 0\<close> Python leaves the floats (the
    result is a complex number, and no exception is raised); the model agrees with Python
    for \<open>0 \<le> D\<close> only, and no statement below relies on the value of the displacement
    formula at \<open>D < 0\<close>, only on the fact that the estimate returns there.
  \<^item> Strings are byte strings; \<^verbatim>\<open>str.lower\<close> and \<^verbatim>\<open>str.strip\<close> are modelled on ASCII.
  \<^item> Every \<^verbatim>\<open>raise\<close> and every division by zero of the source is a value \<open>Inl err\<close>.
  \<^item> The catalogs are module-level data marked as editable in the source; the functions
    take them as arguments, and the shipped tables are the constants
    \<open>ENGINE_CATALOG\<close> and \<open>GEARBOX_CATALOG\<close>.
  \<^item> \<^verbatim>\<open>DataFrame.sort_values\<close> is pandas library code, not code of this program.
    \<open>select_propulsion\<close> takes the sorting routine as an argument, and every statement
    about it holds for whatever routine is passed. In which order the result rows come
    back is decided by that library routine and is not settled here.
\<close>

subsection \<open>Errors\<close>

datatype py_error = ValueError string | ZeroDivisionError

subsection \<open>Catalog entries and the request\<close>

text \<open>
  One engine tuple of \<^verbatim>\<open>ENGINE_CATALOG\<close>; the fields carry the column names given in
  \<^verbatim>\<open>select_propulsion\<close> (the column \<^verbatim>\<open>fuel\<close> is \<open>engine_fuel\<close> here, since the request has
  a field of the same name).
\<close>

record engine_rec =
  engine_model :: string
  manufacturer :: string
  power_kw :: int
  rated_rpm :: int
  dry_weight_kg :: int
  engine_fuel :: string
  length_mm :: int
  width_mm :: int
  height_mm :: int
  price_usd_est :: int

text \<open>One gearbox tuple; the fields carry the names of the loop variables that unpack it.\<close>

record gearbox_rec =
  gb_name :: string
  ratios :: "real list"
  gb_kw_max :: int
  gb_rpm_max :: int
  gb_price :: int

record boat_specs =
  hull_type :: string
  displacement_tonnes :: real
  target_speed_kn :: real
  shafts :: int
  fuel :: string
  budget_usd :: real
  max_engine_length_mm :: int
  max_engine_weight_kg :: real
  desired_prop_rpm :: "int option"
  power_margin :: real

definition ENGINE_CATALOG :: "engine_rec list" where
  "ENGINE_CATALOG =
    [\<lparr>engine_model = ''D6-480'', manufacturer = ''Volvo Penta'', power_kw = 353, rated_rpm = 3500,
       dry_weight_kg = 900, engine_fuel = ''diesel'', length_mm = 1290, width_mm = 750,
       height_mm = 900, price_usd_est = 75000\<rparr>,
     \<lparr>engine_model = ''D8-600'', manufacturer = ''Volvo Penta'', power_kw = 441, rated_rpm = 3000,
       dry_weight_kg = 1200, engine_fuel = ''diesel'', length_mm = 1500, width_mm = 850,
       height_mm = 980, price_usd_est = 98000\<rparr>,
     \<lparr>engine_model = ''C12.9'', manufacturer = ''Caterpillar'', power_kw = 745, rated_rpm = 2300,
       dry_weight_kg = 1550, engine_fuel = ''diesel'', length_mm = 1700, width_mm = 900,
       height_mm = 1200, price_usd_est = 165000\<rparr>,
     \<lparr>engine_model = ''QSB6.7'', manufacturer = ''Cummins'', power_kw = 410, rated_rpm = 3000,
       dry_weight_kg = 650, engine_fuel = ''diesel'', length_mm = 1200, width_mm = 700,
       height_mm = 900, price_usd_est = 65000\<rparr>,
     \<lparr>engine_model = ''QSC8.3'', manufacturer = ''Cummins'', power_kw = 600, rated_rpm = 2600,
       dry_weight_kg = 950, engine_fuel = ''diesel'', length_mm = 1350, width_mm = 760,
       height_mm = 980, price_usd_est = 92000\<rparr>,
     \<lparr>engine_model = ''6LY-440'', manufacturer = ''Yanmar'', power_kw = 324, rated_rpm = 3300,
       dry_weight_kg = 620, engine_fuel = ''diesel'', length_mm = 1100, width_mm = 650,
       height_mm = 820, price_usd_est = 52000\<rparr>,
     \<lparr>engine_model = ''12V2000'', manufacturer = ''MTU'', power_kw = 1200, rated_rpm = 2450,
       dry_weight_kg = 2300, engine_fuel = ''diesel'', length_mm = 2300, width_mm = 1100,
       height_mm = 1400, price_usd_est = 300000\<rparr>,
     \<lparr>engine_model = ''8V2000'', manufacturer = ''MTU'', power_kw = 900, rated_rpm = 2450,
       dry_weight_kg = 1900, engine_fuel = ''diesel'', length_mm = 2100, width_mm = 1050,
       height_mm = 1350, price_usd_est = 240000\<rparr>]"

definition GEARBOX_CATALOG :: "gearbox_rec list" where
  "GEARBOX_CATALOG =
    [\<lparr>gb_name = ''ZF 45A'', ratios = [1.5, 1.75, 2.0, 2.5, 3.0], gb_kw_max = 600,
       gb_rpm_max = 3500, gb_price = 18000\<rparr>,
     \<lparr>gb_name = ''ZF 63A'', ratios = [1.5, 1.75, 2.0, 2.5, 3.0, 3.5], gb_kw_max = 1000,
       gb_rpm_max = 3000, gb_price = 30000\<rparr>,
     \<lparr>gb_name = ''Twin Disc MGX'', ratios = [1.5, 2.0, 2.5, 3.0, 3.5, 4.0], gb_kw_max = 1200,
       gb_rpm_max = 3500, gb_price = 35000\<rparr>]"

subsection \<open>String helpers\<close>

text \<open>\<^verbatim>\<open>str.lower\<close> on ASCII letters; every other byte is kept.\<close>

definition lower_char :: "char \<Rightarrow> char" where
  "lower_char c =
     (case map_of (zip ''ABCDEFGHIJKLMNOPQRSTUVWXYZ'' ''abcdefghijklmnopqrstuvwxyz'') c of
        Some d \<Rightarrow> d
      | None \<Rightarrow> c)"

definition lower :: "string \<Rightarrow> string" where
  "lower s = map lower_char s"

text \<open>
  The ASCII characters for which \<^verbatim>\<open>str.isspace\<close> holds: tab, line feed, vertical tab, form
  feed, carriage return, the four separators 0x1C to 0x1F, and the space.
\<close>

definition is_space :: "char \<Rightarrow> bool" where
  "is_space c \<longleftrightarrow>
     c \<in> set [CHR 0x09, CHR 0x0A, CHR 0x0B, CHR 0x0C, CHR 0x0D,
               CHR 0x1C, CHR 0x1D, CHR 0x1E, CHR 0x1F, CHR '' '']"

definition strip :: "string \<Rightarrow> string" where
  "strip s = rev (dropWhile is_space (rev (dropWhile is_space s)))"

subsection \<open>Unit conversion\<close>

definition kw_to_hp :: "real \<Rightarrow> real" where
  "kw_to_hp kw = kw * 1.34102209"

definition hp_to_kw :: "real \<Rightarrow> real" where
  "hp_to_kw hp = hp / 1.34102209"

subsection \<open>Power estimation\<close>

text \<open>The two regime formulas, as the source computes them before it looks at the hull class.\<close>

definition hp_disp :: "real \<Rightarrow> real \<Rightarrow> real" where
  "hp_disp D V = ((D powr (2 / 3)) * (V ^ 3)) / 130.0"

definition hp_plan :: "real \<Rightarrow> real \<Rightarrow> real" where
  "hp_plan D V = (D * 2204.62) * (V / 185.0) ^ 2"

definition blend_t :: "real \<Rightarrow> real" where
  "blend_t V = min (max ((V - 12) / (30 - 12)) 0.0) 1.0"

definition estimate_total_power_kw :: "boat_specs \<Rightarrow> py_error + real" where
  "estimate_total_power_kw spec =
     (let D = displacement_tonnes spec;
          V = target_speed_kn spec;
          hull_class = lower (strip (hull_type spec))
      in if hull_class = ''displacement'' then Inr (hp_to_kw (hp_disp D V))
         else if hull_class = ''planing'' then Inr (hp_to_kw (hp_plan D V))
         else if hull_class \<in> set [''semi-displacement'', ''semi'', ''semi displacement''] then
           (let t = blend_t V
            in Inr (hp_to_kw ((1 - t) * hp_disp D V + t * hp_plan D V)))
         else Inl (ValueError ''hull_type must be: displacement, semi-displacement, or planing''))"

subsection \<open>Target propeller speed\<close>

definition choose_target_prop_rpm :: "boat_specs \<Rightarrow> int" where
  "choose_target_prop_rpm spec =
     (case desired_prop_rpm spec of
        Some n \<Rightarrow> n
      | None \<Rightarrow>
          (let D = displacement_tonnes spec;
               hull_class = lower (hull_type spec)
           in if hull_class = ''displacement'' then (if D < 30 then 900 else 750)
              else if hull_class \<in> set [''semi-displacement'', ''semi'', ''semi displacement''] then
                (if D < 30 then 1100 else 950)
              else if hull_class = ''planing'' then (if D < 30 then 1300 else 1150)
              else 1000))"

subsection \<open>Nearest gear ratio\<close>

text \<open>
  Python's \<^verbatim>\<open>min(options, key=f)\<close>: one pass that keeps the first element whose key is
  smallest; on an empty list it raises \<^verbatim>\<open>ValueError\<close>.

  The keys \<open>\<bar>x - ratio\<bar>\<close> are computed here in exact real arithmetic, on the decimal
  values of the options; Python computes them in doubles, on the doubles the literals
  denote. The two orders of the keys agree when the options are exactly representable
  and of moderate size, as the ratios of the shipped gearboxes are (multiples of 1/4
  between 1.5 and 4) with the rated speeds of the shipped engines. They can differ
  otherwise: for the options 1.7 and 2.3 and the ratio 2 the decimal keys are equal,
  while the doubles' keys are not. The statements on the ratio choice are therefore made
  for engines and gearboxes of the shipped catalogs.
\<close>

fun min_key :: "('a \<Rightarrow> real) \<Rightarrow> 'a \<Rightarrow> 'a list \<Rightarrow> 'a" where
  "min_key f best [] = best"
| "min_key f best (x # xs) = min_key f (if f x < f best then x else best) xs"

definition nearest_ratio :: "real \<Rightarrow> real list \<Rightarrow> py_error + real" where
  "nearest_ratio ratio options =
     (case options of
        [] \<Rightarrow> Inl (ValueError ''min() arg is an empty sequence'')
      | x # xs \<Rightarrow> Inr (min_key (\<lambda>x. \<bar>x - ratio\<bar>) x xs))"

subsection \<open>Rounding for display\<close>

text \<open>
  \<^verbatim>\<open>round(x)\<close> rounds half to even and yields an integer; \<^verbatim>\<open>round(x, n)\<close> does the same at
  the \<open>n\<close>-th decimal and yields a float.
\<close>

definition py_round :: "real \<Rightarrow> int" where
  "py_round x =
     (let f = \<lfloor>x\<rfloor>; d = x - of_int f
      in if d < 1 / 2 then f else if 1 / 2 < d then f + 1 else if even f then f else f + 1)"

definition py_round_digits :: "real \<Rightarrow> nat \<Rightarrow> real" where
  "py_round_digits x n = of_int (py_round (x * 10 ^ n)) / 10 ^ n"

subsection \<open>Result rows and frames\<close>

text \<open>One dictionary appended to \<^verbatim>\<open>rows\<close>; the fields are its keys, in the source's order.\<close>

record result_row =
  engine :: string
  engine_power_kw :: real
  engine_power_hp :: real
  engine_rated_rpm :: int
  engine_weight_kg :: int
  engine_length_mm :: int
  gearbox :: string
  gear_ratio :: real
  target_prop_rpm :: int
  achieved_prop_rpm :: int
  per_shaft_kw_required :: real
  power_margin_pct :: real
  price_est_usd :: int
  score :: real

text \<open>
  The three data frames \<^verbatim>\<open>select_propulsion\<close> can return: the one-row frame with columns
  \<^verbatim>\<open>status\<close>, \<^verbatim>\<open>total_required_kw_est\<close>, \<^verbatim>\<open>per_shaft_kw_required_with_margin\<close>, \<^verbatim>\<open>hint\<close>; the
  one-row frame with columns \<^verbatim>\<open>status\<close>, \<^verbatim>\<open>hint\<close>; and the frame of result rows.
\<close>

datatype dataframe =
    NoEngineFrame string real real string
  | NoGearboxFrame string string
  | ResultFrame "result_row list"

subsection \<open>Engine filter\<close>

text \<open>The boolean mask that selects \<^verbatim>\<open>engines_f\<close>, for one engine.\<close>

definition engine_mask ::
  "string \<Rightarrow> real \<Rightarrow> int \<Rightarrow> real \<Rightarrow> real \<Rightarrow> engine_rec \<Rightarrow> bool" where
  "engine_mask spec_fuel per_shaft_kw_req max_length max_weight budget e \<longleftrightarrow>
     lower (engine_fuel e) = lower spec_fuel \<and>
     per_shaft_kw_req \<le> real_of_int (power_kw e) \<and>
     length_mm e \<le> max_length \<and>
     real_of_int (dry_weight_kg e) \<le> max_weight \<and>
     real_of_int (price_usd_est e) \<le> budget"

definition filter_engines ::
  "string \<Rightarrow> real \<Rightarrow> int \<Rightarrow> real \<Rightarrow> real \<Rightarrow> engine_rec list \<Rightarrow> engine_rec list" where
  "filter_engines spec_fuel per_shaft_kw_req max_length max_weight budget engines =
     filter (engine_mask spec_fuel per_shaft_kw_req max_length max_weight budget) engines"

subsection \<open>Pairing, ratio choice and score\<close>

text \<open>The gearbox test that guards \<^verbatim>\<open>continue\<close>: the pair is skipped when it holds.\<close>

definition gearbox_too_small :: "engine_rec \<Rightarrow> gearbox_rec \<Rightarrow> bool" where
  "gearbox_too_small e gb \<longleftrightarrow> gb_kw_max gb < power_kw e \<or> gb_rpm_max gb < rated_rpm e"

text \<open>
  The body of the inner loop after the guard, for one engine and one gearbox. The three
  float divisions raise \<^verbatim>\<open>ZeroDivisionError\<close> on a zero divisor, in the source's order.
\<close>

definition pair_row ::
  "boat_specs \<Rightarrow> real \<Rightarrow> int \<Rightarrow> engine_rec \<Rightarrow> real \<Rightarrow> gearbox_rec \<Rightarrow> py_error + result_row" where
  "pair_row spec per_shaft_kw_req target_rpm e ideal_ratio gb =
     (let engine_kw = real_of_int (power_kw e);
          engine_rpm = real_of_int (rated_rpm e)
      in case nearest_ratio ideal_ratio (ratios gb) of
           Inl err \<Rightarrow> Inl err
         | Inr chosen_ratio \<Rightarrow>
             if chosen_ratio = 0 then Inl ZeroDivisionError
             else if per_shaft_kw_req = 0 then Inl ZeroDivisionError
             else if ideal_ratio = 0 then Inl ZeroDivisionError
             else
               (let achieved = engine_rpm / chosen_ratio;
                    margin_pct = (engine_kw - per_shaft_kw_req) / per_shaft_kw_req;
                    ratio_error = \<bar>chosen_ratio - ideal_ratio\<bar> / ideal_ratio;
                    total_price_est = real_of_int (price_usd_est e) + real_of_int (gb_price gb)
                in Inr \<lparr>engine = manufacturer e @ '' '' @ engine_model e,
                         engine_power_kw = py_round_digits engine_kw 1,
                         engine_power_hp = py_round_digits (kw_to_hp engine_kw) 0,
                         engine_rated_rpm = rated_rpm e,
                         engine_weight_kg = dry_weight_kg e,
                         engine_length_mm = length_mm e,
                         gearbox = gb_name gb,
                         gear_ratio = chosen_ratio,
                         target_prop_rpm = target_rpm,
                         achieved_prop_rpm = py_round achieved,
                         per_shaft_kw_required = py_round_digits per_shaft_kw_req 1,
                         power_margin_pct = py_round_digits (100 * margin_pct) 1,
                         price_est_usd = py_round total_price_est,
                         score = 0.55 * min margin_pct 1.0 - 0.35 * ratio_error
                                 - 0.10 * (total_price_est / max (budget_usd spec) 1.0)\<rparr>))"

text \<open>The inner loop over the gearbox catalog: the rows it appends, in catalog order.\<close>

fun gearbox_loop ::
  "boat_specs \<Rightarrow> real \<Rightarrow> int \<Rightarrow> engine_rec \<Rightarrow> real \<Rightarrow> gearbox_rec list \<Rightarrow> py_error + result_row list" where
  "gearbox_loop spec req target_rpm e ideal_ratio [] = Inr []"
| "gearbox_loop spec req target_rpm e ideal_ratio (gb # gbs) =
     (if gearbox_too_small e gb then gearbox_loop spec req target_rpm e ideal_ratio gbs
      else case pair_row spec req target_rpm e ideal_ratio gb of
             Inl err \<Rightarrow> Inl err
           | Inr r \<Rightarrow>
               (case gearbox_loop spec req target_rpm e ideal_ratio gbs of
                  Inl err \<Rightarrow> Inl err
                | Inr rs \<Rightarrow> Inr (r # rs)))"

text \<open>
  The outer loop over \<^verbatim>\<open>engines_f\<close>. The ideal ratio is computed once per engine, before
  any gearbox is looked at, so a zero target speed raises as soon as one engine is there.
\<close>

fun engine_loop ::
  "boat_specs \<Rightarrow> real \<Rightarrow> int \<Rightarrow> gearbox_rec list \<Rightarrow> engine_rec list \<Rightarrow> py_error + result_row list" where
  "engine_loop spec req target_rpm gbs [] = Inr []"
| "engine_loop spec req target_rpm gbs (e # es) =
     (if target_rpm = 0 then Inl ZeroDivisionError
      else case gearbox_loop spec req target_rpm e
                  (real_of_int (rated_rpm e) / real_of_int target_rpm) gbs of
             Inl err \<Rightarrow> Inl err
           | Inr rs \<Rightarrow>
               (case engine_loop spec req target_rpm gbs es of
                  Inl err \<Rightarrow> Inl err
                | Inr rss \<Rightarrow> Inr (rs @ rss)))"

subsection \<open>The orchestrator\<close>

definition select_propulsion ::
  "(result_row list \<Rightarrow> result_row list) \<Rightarrow> engine_rec list \<Rightarrow> gearbox_rec list \<Rightarrow> boat_specs
     \<Rightarrow> py_error + (dataframe \<times> real \<times> real \<times> real \<times> int)" where
  "select_propulsion sort_values engines gbs spec =
     (case estimate_total_power_kw spec of
        Inl err \<Rightarrow> Inl err
      | Inr total_kw \<Rightarrow>
          (let total_kw_with_margin = total_kw * (1.0 + power_margin spec)
           in if shafts spec = 0 then Inl ZeroDivisionError
              else
                (let per_shaft_kw_req = total_kw_with_margin / real_of_int (shafts spec);
                     target_rpm = choose_target_prop_rpm spec;
                     engines_f = filter_engines (fuel spec) per_shaft_kw_req
                                   (max_engine_length_mm spec) (max_engine_weight_kg spec)
                                   (budget_usd spec) engines
                 in if engines_f = [] then
                      Inr (NoEngineFrame ''No engine matches found with current constraints.''
                             (py_round_digits total_kw 1) (py_round_digits per_shaft_kw_req 1)
                             ''Increase budget/space limits, reduce margin, add more engines to catalog, or lower target speed.'',
                           total_kw, total_kw_with_margin, per_shaft_kw_req, target_rpm)
                    else
                      (case engine_loop spec per_shaft_kw_req target_rpm gbs engines_f of
                         Inl err \<Rightarrow> Inl err
                       | Inr rows \<Rightarrow>
                           if rows = [] then
                             Inr (NoGearboxFrame
                                    ''Engines matched, but no gearbox matched power/rpm constraints.''
                                    ''Add gearbox models to catalog or raise gearbox limits.'',
                                  total_kw, total_kw_with_margin, per_shaft_kw_req, target_rpm)
                           else
                             Inr (ResultFrame (sort_values rows),
                                  total_kw, total_kw_with_margin, per_shaft_kw_req, target_rpm)))))"

subsection \<open>An instance of the sorting routine\<close>

text \<open>
  A descending sort by score that keeps rows of equal score in their input order. It
  stands for the sorting routine wherever a request is evaluated below.
\<close>

definition sort_desc_stable :: "result_row list \<Rightarrow> result_row list" where
  "sort_desc_stable rows = sort_key (\<lambda>r. - score r) rows"

subsection \<open>Valid requests\<close>

text \<open>The hull classes \<^verbatim>\<open>estimate_total_power_kw\<close> accepts, after stripping and lower-casing.\<close>

definition recognised_hull :: "string \<Rightarrow> bool" where
  "recognised_hull h \<longleftrightarrow>
     lower (strip h) \<in> set [''displacement'', ''planing'', ''semi-displacement'', ''semi'',
                             ''semi displacement'']"

text \<open>
  The specification's notion of a valid request (its data model and the preconditions of
  its interface): a recognised hull class, positive displacement, speed and shaft count,
  and a non-negative margin. The source has no such check; the predicate only delimits
  the requests the statements below speak about.
\<close>

definition valid_spec :: "boat_specs \<Rightarrow> bool" where
  "valid_spec spec \<longleftrightarrow>
     recognised_hull (hull_type spec) \<and> 0 < displacement_tonnes spec \<and>
     0 < target_speed_kn spec \<and> 1 \<le> shafts spec \<and> 0 \<le> power_margin spec"

text \<open>
  Catalogs on which no pairing can raise: every gearbox offers at least one ratio, no
  ratio is zero, and no engine has a zero rated speed. The shipped catalogs are such.
\<close>

definition catalogs_ok :: "engine_rec list \<Rightarrow> gearbox_rec list \<Rightarrow> bool" where
  "catalogs_ok engines gbs \<longleftrightarrow>
     list_all (\<lambda>e. rated_rpm e \<noteq> 0) engines \<and>
     list_all (\<lambda>gb. ratios gb \<noteq> [] \<and> 0 \<notin> set (ratios gb)) gbs"

subsection \<open>Notions used in the statements\<close>

text \<open>
  \<open>nearest_first ideal options c\<close>: \<open>c\<close> is one of the options, no option is closer to
  \<open>ideal\<close>, and every option that stands before the first occurrence of \<open>c\<close> is strictly
  farther from \<open>ideal\<close>.
\<close>

definition nearest_first :: "real \<Rightarrow> real list \<Rightarrow> real \<Rightarrow> bool" where
  "nearest_first ideal options c \<longleftrightarrow>
     c \<in> set options \<and>
     (\<forall>x \<in> set options. \<bar>c - ideal\<bar> \<le> \<bar>x - ideal\<bar>) \<and>
     (\<forall>y \<in> set (takeWhile (\<lambda>x. x \<noteq> c) options). \<bar>c - ideal\<bar> < \<bar>y - ideal\<bar>)"

text \<open>The (engine, gearbox) pairs the two loops do not skip, in the order they visit them.\<close>

definition surviving_pairs :: "engine_rec list \<Rightarrow> gearbox_rec list \<Rightarrow> (engine_rec \<times> gearbox_rec) list" where
  "surviving_pairs es gbs = filter (\<lambda>(e, gb). \<not> gearbox_too_small e gb) (List.product es gbs)"

text \<open>A result row belongs to a pair and carries the nearest ratio for it.\<close>

definition row_of_pair :: "int \<Rightarrow> engine_rec \<times> gearbox_rec \<Rightarrow> result_row \<Rightarrow> bool" where
  "row_of_pair target_rpm p r \<longleftrightarrow>
     engine r = manufacturer (fst p) @ '' '' @ engine_model (fst p) \<and>
     gearbox r = gb_name (snd p) \<and>
     nearest_first (real_of_int (rated_rpm (fst p)) / real_of_int target_rpm) (ratios (snd p))
       (gear_ratio r)"

subsection \<open>Concrete requests\<close>

text \<open>
  A planing hull of 10 t at 10 kn on two shafts, with a budget of 240000 and at most
  900 kg per engine. Three catalog engines pass the filter and seven pairings survive.
\<close>

definition tie_spec :: boat_specs where
  "tie_spec = \<lparr>hull_type = ''planing'', displacement_tonnes = 10, target_speed_kn = 10,
     shafts = 2, fuel = ''diesel'', budget_usd = 240000, max_engine_length_mm = 1800,
     max_engine_weight_kg = 900, desired_prop_rpm = None, power_margin = 0.15\<rparr>"

definition tie_total_kw :: real where
  "tie_total_kw = hp_to_kw (hp_plan 10 10)"

definition tie_req :: real where
  "tie_req = tie_total_kw * (1.0 + 0.15) / 2"

definition tie_rows :: "result_row list" where
  "tie_rows =
    [\<lparr>engine = ''Volvo Penta D6-480'', engine_power_kw = 353, engine_power_hp = 473,
       engine_rated_rpm = 3500, engine_weight_kg = 900, engine_length_mm = 1290,
       gearbox = ''ZF 45A'', gear_ratio = 5 / 2, target_prop_rpm = 1300,
       achieved_prop_rpm = 1400, per_shaft_kw_required = 138 / 5,
       power_margin_pct = 11781 / 10, price_est_usd = 93000, score = 389 / 800\<rparr>,
     \<lparr>engine = ''Volvo Penta D6-480'', engine_power_kw = 353, engine_power_hp = 473,
       engine_rated_rpm = 3500, engine_weight_kg = 900, engine_length_mm = 1290,
       gearbox = ''Twin Disc MGX'', gear_ratio = 5 / 2, target_prop_rpm = 1300,
       achieved_prop_rpm = 1400, per_shaft_kw_required = 138 / 5,
       power_margin_pct = 11781 / 10, price_est_usd = 110000, score = 23 / 48\<rparr>,
     \<lparr>engine = ''Cummins QSB6.7'', engine_power_kw = 410, engine_power_hp = 550,
       engine_rated_rpm = 3000, engine_weight_kg = 650, engine_length_mm = 1200,
       gearbox = ''ZF 45A'', gear_ratio = 5 / 2, target_prop_rpm = 1300,
       achieved_prop_rpm = 1200, per_shaft_kw_required = 138 / 5,
       power_margin_pct = 6922 / 5, price_est_usd = 83000, score = 389 / 800\<rparr>,
     \<lparr>engine = ''Cummins QSB6.7'', engine_power_kw = 410, engine_power_hp = 550,
       engine_rated_rpm = 3000, engine_weight_kg = 650, engine_length_mm = 1200,
       gearbox = ''ZF 63A'', gear_ratio = 5 / 2, target_prop_rpm = 1300,
       achieved_prop_rpm = 1200, per_shaft_kw_required = 138 / 5,
       power_margin_pct = 6922 / 5, price_est_usd = 95000, score = 77 / 160\<rparr>,
     \<lparr>engine = ''Cummins QSB6.7'', engine_power_kw = 410, engine_power_hp = 550,
       engine_rated_rpm = 3000, engine_weight_kg = 650, engine_length_mm = 1200,
       gearbox = ''Twin Disc MGX'', gear_ratio = 5 / 2, target_prop_rpm = 1300,
       achieved_prop_rpm = 1200, per_shaft_kw_required = 138 / 5,
       power_margin_pct = 6922 / 5, price_est_usd = 100000, score = 23 / 48\<rparr>,
     \<lparr>engine = ''Yanmar 6LY-440'', engine_power_kw = 324, engine_power_hp = 434,
       engine_rated_rpm = 3300, engine_weight_kg = 620, engine_length_mm = 1100,
       gearbox = ''ZF 45A'', gear_ratio = 5 / 2, target_prop_rpm = 1300,
       achieved_prop_rpm = 1320, per_shaft_kw_required = 138 / 5,
       power_margin_pct = 10731 / 10, price_est_usd = 70000, score = 1361 / 2640\<rparr>,
     \<lparr>engine = ''Yanmar 6LY-440'', engine_power_kw = 324, engine_power_hp = 434,
       engine_rated_rpm = 3300, engine_weight_kg = 620, engine_length_mm = 1100,
       gearbox = ''Twin Disc MGX'', gear_ratio = 5 / 2, target_prop_rpm = 1300,
       achieved_prop_rpm = 1320, per_shaft_kw_required = 138 / 5,
       power_margin_pct = 10731 / 10, price_est_usd = 87000, score = 13423 / 26400\<rparr>]"

text \<open>
  The rows of the same request for the 6LY-440 alone (rated 3300 rpm) when the target
  propeller speed is 1200: the ideal ratio is 2.75, halfway between 2.5 and 3.0.
\<close>

definition halfway_rows :: "result_row list" where
  "halfway_rows =
    [\<lparr>engine = ''Yanmar 6LY-440'', engine_power_kw = 324, engine_power_hp = 434,
       engine_rated_rpm = 3300, engine_weight_kg = 620, engine_length_mm = 1100,
       gearbox = ''ZF 45A'', gear_ratio = 5 / 2, target_prop_rpm = 1200,
       achieved_prop_rpm = 1320, per_shaft_kw_required = 138 / 5,
       power_margin_pct = 10731 / 10, price_est_usd = 70000, score = 1291 / 2640\<rparr>,
     \<lparr>engine = ''Yanmar 6LY-440'', engine_power_kw = 324, engine_power_hp = 434,
       engine_rated_rpm = 3300, engine_weight_kg = 620, engine_length_mm = 1100,
       gearbox = ''Twin Disc MGX'', gear_ratio = 5 / 2, target_prop_rpm = 1200,
       achieved_prop_rpm = 1320, per_shaft_kw_required = 138 / 5,
       power_margin_pct = 10731 / 10, price_est_usd = 87000, score = 4241 / 8800\<rparr>]"


text \<open>The same request with a budget below every catalog price.\<close>

definition frugal_spec :: boat_specs where
  "frugal_spec = \<lparr>hull_type = ''planing'', displacement_tonnes = 10, target_speed_kn = 10,
     shafts = 2, fuel = ''diesel'', budget_usd = 1000, max_engine_length_mm = 1800,
     max_engine_weight_kg = 900, desired_prop_rpm = None, power_margin = 0.15\<rparr>"

text \<open>The same request going astern: the target speed is negative.\<close>

definition astern_spec :: boat_specs where
  "astern_spec = \<lparr>hull_type = ''planing'', displacement_tonnes = 10, target_speed_kn = - 10,
     shafts = 2, fuel = ''diesel'', budget_usd = 240000, max_engine_length_mm = 1800,
     max_engine_weight_kg = 900, desired_prop_rpm = None, power_margin = 0.15\<rparr>"

text \<open>
  A planing hull of 25 t at 40 kn on two shafts, with the dataclass defaults for budget,
  length and weight. Only the largest catalog engine is strong enough.
\<close>

definition heavy_spec :: boat_specs where
  "heavy_spec = \<lparr>hull_type = ''planing'', displacement_tonnes = 25, target_speed_kn = 40,
     shafts = 2, fuel = ''diesel'', budget_usd = 1000000000, max_engine_length_mm = 1000000000,
     max_engine_weight_kg = 1000000000, desired_prop_rpm = None, power_margin = 0.15\<rparr>"

definition heavy_total_kw :: real where
  "heavy_total_kw = hp_to_kw (hp_plan 25 40)"

definition heavy_req :: real where
  "heavy_req = heavy_total_kw * (1.0 + 0.15) / 2"

section \<open>Evaluating the string helpers\<close>

lemmas string_eval = lower_def lower_char_def strip_def is_space_def

section \<open>The target speed heuristic\<close>

text \<open>
  C7. When \<^verbatim>\<open>desired_prop_rpm\<close> is supplied, \<^verbatim>\<open>choose_target_prop_rpm\<close> returns it unchanged,
  whatever the hull class and the displacement are. When it is not supplied and the
  lower-cased hull class is none of the five recognised spellings, the function returns
  the default 1000; the function has no error result at all.
\<close>

theorem target_rpm_override_and_default:
  "(desired_prop_rpm spec = Some n \<longrightarrow> choose_target_prop_rpm spec = n) \<and>
   (desired_prop_rpm spec = None \<and>
    lower (hull_type spec) \<notin> set [''displacement'', ''semi-displacement'', ''semi'',
                                     ''semi displacement'', ''planing'']
      \<longrightarrow> choose_target_prop_rpm spec = 1000)"
  by (simp add: choose_target_prop_rpm_def)

theorem target_rpm_override_and_default_witness:
  "choose_target_prop_rpm (tie_spec\<lparr>desired_prop_rpm := Some 1234\<rparr>) = 1234 \<and>
   choose_target_prop_rpm (tie_spec\<lparr>hull_type := ''hovercraft'', desired_prop_rpm := Some 850\<rparr>) = 850 \<and>
   choose_target_prop_rpm (tie_spec\<lparr>hull_type := ''hovercraft''\<rparr>) = 1000"
  using target_rpm_override_and_default [of "tie_spec\<lparr>desired_prop_rpm := Some 1234\<rparr>" 1234]
    target_rpm_override_and_default
      [of "tie_spec\<lparr>hull_type := ''hovercraft'', desired_prop_rpm := Some 850\<rparr>" 850]
    target_rpm_override_and_default [of "tie_spec\<lparr>hull_type := ''hovercraft''\<rparr>"]
  by (simp add: tie_spec_def string_eval)

section \<open>Nearest ratio\<close>

lemma min_key_split:
  "\<exists>before after. best # xs = before @ min_key f best xs # after \<and>
     (\<forall>y \<in> set before. f (min_key f best xs) < f y) \<and>
     (\<forall>z \<in> set after. f (min_key f best xs) \<le> f z)"
proof (induction xs arbitrary: best)
  case Nil
  have "[best] = [] @ min_key f best [] # [] \<and>
        (\<forall>y \<in> set []. f (min_key f best []) < f y) \<and>
        (\<forall>z \<in> set []. f (min_key f best []) \<le> f z)" by simp
  then show ?case by blast
next
  case (Cons x xs)
  show ?case
  proof (cases "f x < f best")
    case True
    define m where "m = min_key f x xs"
    from True have step: "min_key f best (x # xs) = m" by (simp add: m_def)
    from Cons.IH [of x] obtain before after where
      dec: "x # xs = before @ m # after" and
      lt: "\<forall>y \<in> set before. f m < f y" and
      le: "\<forall>z \<in> set after. f m \<le> f z"
      unfolding m_def by blast
    have "f m \<le> f x"
    proof (cases before)
      case Nil
      with dec show ?thesis by simp
    next
      case (Cons b before')
      with dec lt show ?thesis by simp
    qed
    with True have "f m < f best" by simp
    with dec lt le have
      "best # x # xs = (best # before) @ m # after \<and>
       (\<forall>y \<in> set (best # before). f m < f y) \<and> (\<forall>z \<in> set after. f m \<le> f z)"
      by simp
    then show ?thesis unfolding step by blast
  next
    case False
    define m where "m = min_key f best xs"
    from False have step: "min_key f best (x # xs) = m" by (simp add: m_def)
    from Cons.IH [of best] obtain before after where
      dec: "best # xs = before @ m # after" and
      lt: "\<forall>y \<in> set before. f m < f y" and
      le: "\<forall>z \<in> set after. f m \<le> f z"
      unfolding m_def by blast
    show ?thesis
    proof (cases before)
      case Nil
      with dec have "m = best" "after = xs" by simp_all
      with False le have
        "best # x # xs = [] @ m # (x # xs) \<and> (\<forall>y \<in> set []. f m < f y) \<and>
         (\<forall>z \<in> set (x # xs). f m \<le> f z)" by auto
      then show ?thesis unfolding step by blast
    next
      case (Cons b before')
      with dec have b: "b = best" and xs: "xs = before' @ m # after" by simp_all
      from lt Cons b have "f m < f best" by simp
      with False have "f m < f x" by simp
      with \<open>f m < f best\<close> lt le Cons xs have
        "best # x # xs = (best # x # before') @ m # after \<and>
         (\<forall>y \<in> set (best # x # before'). f m < f y) \<and> (\<forall>z \<in> set after. f m \<le> f z)"
        by simp
      then show ?thesis unfolding step by blast
    qed
  qed
qed

lemma nearest_ratio_nearest_first:
  assumes "nearest_ratio ideal options = Inr c"
  shows "nearest_first ideal options c"
proof -
  from assms obtain x xs where opts: "options = x # xs"
    and c: "c = min_key (\<lambda>x. \<bar>x - ideal\<bar>) x xs"
    by (auto simp: nearest_ratio_def split: list.splits)
  from min_key_split [of x xs "\<lambda>x. \<bar>x - ideal\<bar>"] c obtain before after where
    dec: "x # xs = before @ c # after" and
    lt: "\<forall>y \<in> set before. \<bar>c - ideal\<bar> < \<bar>y - ideal\<bar>" and
    le: "\<forall>z \<in> set after. \<bar>c - ideal\<bar> \<le> \<bar>z - ideal\<bar>"
    by blast
  from lt have notin: "\<forall>y \<in> set before. y \<noteq> c" by auto
  then have tw: "takeWhile (\<lambda>x. x \<noteq> c) (before @ c # after) = before"
    by (simp add: takeWhile_append2)
  show ?thesis
    unfolding nearest_first_def opts dec tw using lt le by auto
qed

lemma nearest_ratio_returns: "options \<noteq> [] \<Longrightarrow> \<exists>c. nearest_ratio ideal options = Inr c"
  by (cases options) (simp_all add: nearest_ratio_def)

section \<open>The loops and the surviving pairs\<close>

lemma surviving_pairs_Nil: "surviving_pairs [] gbs = []"
  by (simp add: surviving_pairs_def)

lemma surviving_pairs_Cons:
  "surviving_pairs (e # es) gbs =
     map (Pair e) (filter (\<lambda>gb. \<not> gearbox_too_small e gb) gbs) @ surviving_pairs es gbs"
  by (simp add: surviving_pairs_def filter_map comp_def)

lemma pair_row_fields:
  assumes "pair_row spec req target_rpm e ideal gb = Inr r"
  shows "nearest_ratio ideal (ratios gb) = Inr (gear_ratio r) \<and> gearbox r = gb_name gb \<and>
         engine r = manufacturer e @ '' '' @ engine_model e \<and> target_prop_rpm r = target_rpm"
  using assms
  by (auto simp: pair_row_def Let_def split: sum.splits if_splits)

lemma gearbox_loop_rows:
  assumes "gearbox_loop spec req target_rpm e ideal gbs = Inr rs"
  shows "list_all2 (\<lambda>gb r. pair_row spec req target_rpm e ideal gb = Inr r)
           (filter (\<lambda>gb. \<not> gearbox_too_small e gb) gbs) rs"
  using assms
proof (induction gbs arbitrary: rs)
  case Nil
  then show ?case by simp
next
  case (Cons gb gbs)
  show ?case
  proof (cases "gearbox_too_small e gb")
    case True
    with Cons show ?thesis by simp
  next
    case False
    with Cons.prems obtain r rs' where
      r: "pair_row spec req target_rpm e ideal gb = Inr r" and
      rs': "gearbox_loop spec req target_rpm e ideal gbs = Inr rs'" and
      rs: "rs = r # rs'"
      by (auto split: sum.splits)
    from Cons.IH [OF rs'] r rs False show ?thesis by simp
  qed
qed

lemma engine_loop_rows:
  assumes "engine_loop spec req target_rpm gbs es = Inr rows"
  shows "list_all2
           (\<lambda>p r. pair_row spec req target_rpm (fst p)
                    (real_of_int (rated_rpm (fst p)) / real_of_int target_rpm) (snd p) = Inr r)
           (surviving_pairs es gbs) rows"
  using assms
proof (induction es arbitrary: rows)
  case Nil
  then show ?case by (simp add: surviving_pairs_Nil)
next
  case (Cons e es)
  from Cons.prems obtain rs rss where
    rs: "gearbox_loop spec req target_rpm e (real_of_int (rated_rpm e) / real_of_int target_rpm) gbs = Inr rs" and
    rss: "engine_loop spec req target_rpm gbs es = Inr rss" and
    rows: "rows = rs @ rss"
    by (auto split: sum.splits if_splits)
  from gearbox_loop_rows [OF rs] have
    "list_all2 (\<lambda>p r. pair_row spec req target_rpm (fst p)
                    (real_of_int (rated_rpm (fst p)) / real_of_int target_rpm) (snd p) = Inr r)
       (map (Pair e) (filter (\<lambda>gb. \<not> gearbox_too_small e gb) gbs)) rs"
    by (simp add: list_all2_map1)
  with Cons.IH [OF rss] show ?case
    unfolding rows surviving_pairs_Cons by (rule list_all2_appendI [rotated])
qed

section \<open>What a normal return of the orchestrator tells\<close>

lemma select_propulsion_Inr:
  assumes "select_propulsion sort_values engines gbs spec = Inr (df, total_kw, with_margin, req, target_rpm)"
  shows "estimate_total_power_kw spec = Inr total_kw \<and> shafts spec \<noteq> 0 \<and>
         with_margin = total_kw * (1.0 + power_margin spec) \<and>
         req = with_margin / real_of_int (shafts spec) \<and>
         target_rpm = choose_target_prop_rpm spec"
  using assms
  by (auto simp: select_propulsion_def Let_def split: sum.splits if_splits)

lemma select_propulsion_ResultFrameI:
  assumes "estimate_total_power_kw spec = Inr total_kw"
    and "shafts spec \<noteq> 0"
    and "req = total_kw * (1.0 + power_margin spec) / real_of_int (shafts spec)"
    and "engine_loop spec req (choose_target_prop_rpm spec) gbs
           (filter_engines (fuel spec) req (max_engine_length_mm spec)
              (max_engine_weight_kg spec) (budget_usd spec) engines) = Inr rows"
    and "rows \<noteq> []"
  shows "select_propulsion sort_values engines gbs spec =
           Inr (ResultFrame (sort_values rows), total_kw,
                total_kw * (1.0 + power_margin spec), req, choose_target_prop_rpm spec)"
proof -
  have "filter_engines (fuel spec) req (max_engine_length_mm spec)
          (max_engine_weight_kg spec) (budget_usd spec) engines \<noteq> []"
    using assms(4,5) by auto
  with assms show ?thesis
    by (simp add: select_propulsion_def Let_def)
qed

section \<open>The concrete request evaluated\<close>

lemma tie_total_kw_value: "tie_total_kw = 8818480000000 / 183585924121"
  by (simp add: tie_total_kw_def hp_to_kw_def hp_plan_def power2_eq_square)

lemma tie_req_value: "tie_req = 5070626000000 / 183585924121"
  by (simp add: tie_req_def tie_total_kw_value)

lemma tie_spec_valid: "valid_spec tie_spec"
  by (simp add: valid_spec_def recognised_hull_def tie_spec_def string_eval)

lemma tie_spec_estimate: "estimate_total_power_kw tie_spec = Inr tie_total_kw"
  by (simp add: estimate_total_power_kw_def tie_spec_def tie_total_kw_def string_eval)

lemma tie_spec_target: "choose_target_prop_rpm tie_spec = 1300"
  by (simp add: choose_target_prop_rpm_def tie_spec_def string_eval)

lemma tie_spec_engines:
  "filter_engines (fuel tie_spec) tie_req (max_engine_length_mm tie_spec)
     (max_engine_weight_kg tie_spec) (budget_usd tie_spec) ENGINE_CATALOG =
   [ENGINE_CATALOG ! 0, ENGINE_CATALOG ! 3, ENGINE_CATALOG ! 5]"
  by (simp add: filter_engines_def engine_mask_def tie_spec_def tie_req_value
      ENGINE_CATALOG_def string_eval)

lemma tie_spec_loop:
  "engine_loop tie_spec tie_req 1300 GEARBOX_CATALOG
     [ENGINE_CATALOG ! 0, ENGINE_CATALOG ! 3, ENGINE_CATALOG ! 5] = Inr tie_rows"
  by (simp add: ENGINE_CATALOG_def GEARBOX_CATALOG_def gearbox_too_small_def pair_row_def
      nearest_ratio_def tie_spec_def tie_req_value tie_rows_def py_round_def
      py_round_digits_def kw_to_hp_def Let_def)

lemma tie_spec_select:
  "select_propulsion sort_values ENGINE_CATALOG GEARBOX_CATALOG tie_spec =
     Inr (ResultFrame (sort_values tie_rows), tie_total_kw, tie_total_kw * (1.0 + 0.15),
          tie_req, 1300)"
proof -
  have m: "power_margin tie_spec = 0.15" and s: "shafts tie_spec = 2"
    by (simp_all add: tie_spec_def)
  have r: "tie_req = tie_total_kw * (1.0 + power_margin tie_spec) / real_of_int (shafts tie_spec)"
    by (simp add: tie_req_def m s)
  have ne: "tie_rows \<noteq> []" by (simp add: tie_rows_def)
  have "select_propulsion sort_values ENGINE_CATALOG GEARBOX_CATALOG tie_spec =
          Inr (ResultFrame (sort_values tie_rows), tie_total_kw,
               tie_total_kw * (1.0 + power_margin tie_spec), tie_req,
               choose_target_prop_rpm tie_spec)"
    using tie_spec_estimate _ r _ ne
  proof (rule select_propulsion_ResultFrameI)
    show "shafts tie_spec \<noteq> 0" by (simp add: s)
    show "engine_loop tie_spec tie_req (choose_target_prop_rpm tie_spec) GEARBOX_CATALOG
           (filter_engines (fuel tie_spec) tie_req (max_engine_length_mm tie_spec)
              (max_engine_weight_kg tie_spec) (budget_usd tie_spec) ENGINE_CATALOG) = Inr tie_rows"
      by (simp only: tie_spec_target tie_spec_engines tie_spec_loop)
  qed
  then show ?thesis by (simp add: m tie_spec_target)
qed

lemma tie_surviving:
  "map (\<lambda>p. (engine_model (fst p), gb_name (snd p)))
     (surviving_pairs [ENGINE_CATALOG ! 0, ENGINE_CATALOG ! 3, ENGINE_CATALOG ! 5] GEARBOX_CATALOG) =
   [(''D6-480'', ''ZF 45A''), (''D6-480'', ''Twin Disc MGX''),
    (''QSB6.7'', ''ZF 45A''), (''QSB6.7'', ''ZF 63A''), (''QSB6.7'', ''Twin Disc MGX''),
    (''6LY-440'', ''ZF 45A''), (''6LY-440'', ''Twin Disc MGX'')]"
  by (simp add: surviving_pairs_def ENGINE_CATALOG_def GEARBOX_CATALOG_def gearbox_too_small_def)

lemma halfway_loop:
  "engine_loop tie_spec tie_req 1200 GEARBOX_CATALOG [ENGINE_CATALOG ! 5] = Inr halfway_rows"
  by (simp add: ENGINE_CATALOG_def GEARBOX_CATALOG_def gearbox_too_small_def pair_row_def
      nearest_ratio_def tie_spec_def tie_req_value halfway_rows_def py_round_def
      py_round_digits_def kw_to_hp_def Let_def)

lemma halfway_surviving:
  "surviving_pairs [ENGINE_CATALOG ! 5] GEARBOX_CATALOG =
     [(ENGINE_CATALOG ! 5, GEARBOX_CATALOG ! 0), (ENGINE_CATALOG ! 5, GEARBOX_CATALOG ! 2)]"
  by (simp add: surviving_pairs_def ENGINE_CATALOG_def GEARBOX_CATALOG_def gearbox_too_small_def)

section \<open>The estimate by hull class\<close>

lemma blend_t_range: "0 \<le> blend_t V \<and> blend_t V \<le> 1"
  by (simp add: blend_t_def)






section \<open>When the loops return\<close>

lemma hp_disp_pos: "0 < D \<Longrightarrow> 0 < V \<Longrightarrow> 0 < hp_disp D V"
  by (simp add: hp_disp_def)

lemma hp_plan_pos: "0 < D \<Longrightarrow> 0 < V \<Longrightarrow> 0 < hp_plan D V"
  by (simp add: hp_plan_def)

lemma blend_pos:
  fixes a b t :: real
  assumes "0 < a" and "0 < b" and "0 \<le> t" and "t \<le> 1"
  shows "0 < (1 - t) * a + t * b"
proof (cases "t = 1")
  case True
  with assms show ?thesis by simp
next
  case False
  with assms have "0 < (1 - t) * a" by simp
  moreover from assms have "0 \<le> t * b" by simp
  ultimately show ?thesis by linarith
qed

lemma estimate_recognised:
  assumes "recognised_hull (hull_type spec)"
  shows "\<exists>kw. estimate_total_power_kw spec = Inr kw"
  using assms
  by (auto simp: recognised_hull_def estimate_total_power_kw_def Let_def)

lemma estimate_unrecognised:
  assumes "\<not> recognised_hull (hull_type spec)"
  shows "estimate_total_power_kw spec =
           Inl (ValueError ''hull_type must be: displacement, semi-displacement, or planing'')"
  using assms
  by (auto simp: recognised_hull_def estimate_total_power_kw_def Let_def)

lemma hp_to_kw_pos: "0 < hp \<Longrightarrow> 0 < hp_to_kw hp"
  by (simp add: hp_to_kw_def)

lemma estimate_valid_pos:
  assumes "valid_spec spec"
  shows "\<exists>kw. 0 < kw \<and> estimate_total_power_kw spec = Inr kw"
proof -
  let ?D = "displacement_tonnes spec" and ?V = "target_speed_kn spec"
  let ?blend = "(1 - blend_t ?V) * hp_disp ?D ?V + blend_t ?V * hp_plan ?D ?V"
  from assms have D: "0 < ?D" and V: "0 < ?V" and r: "recognised_hull (hull_type spec)"
    by (simp_all add: valid_spec_def)
  note d = hp_disp_pos [OF D V] and p = hp_plan_pos [OF D V]
  have b: "0 < ?blend"
    using blend_pos [OF d p] blend_t_range [of ?V] by simp
  from r have "estimate_total_power_kw spec = Inr (hp_to_kw (hp_disp ?D ?V)) \<or>
               estimate_total_power_kw spec = Inr (hp_to_kw (hp_plan ?D ?V)) \<or>
               estimate_total_power_kw spec = Inr (hp_to_kw ?blend)"
    by (auto simp: recognised_hull_def estimate_total_power_kw_def Let_def)
  with hp_to_kw_pos [OF d] hp_to_kw_pos [OF p] hp_to_kw_pos [OF b] show ?thesis
    by blast
qed

lemma pair_row_returns:
  assumes "ratios gb \<noteq> []" and "0 \<notin> set (ratios gb)" and "req \<noteq> 0" and "ideal \<noteq> 0"
  shows "\<exists>r. pair_row spec req target_rpm e ideal gb = Inr r"
proof -
  from nearest_ratio_returns [OF assms(1)] obtain c where
    c: "nearest_ratio ideal (ratios gb) = Inr c" by blast
  from nearest_ratio_nearest_first [OF c] have "c \<in> set (ratios gb)"
    by (simp add: nearest_first_def)
  with assms(2) have "c \<noteq> 0" by auto
  with c assms(3,4) show ?thesis
    by (simp add: pair_row_def Let_def)
qed

lemma gearbox_loop_returns:
  assumes "list_all (\<lambda>gb. ratios gb \<noteq> [] \<and> 0 \<notin> set (ratios gb)) gbs"
    and "req \<noteq> 0" and "ideal \<noteq> 0"
  shows "\<exists>rs. gearbox_loop spec req target_rpm e ideal gbs = Inr rs"
  using assms(1)
proof (induction gbs)
  case Nil
  show ?case by simp
next
  case (Cons gb gbs)
  then obtain rs where rs: "gearbox_loop spec req target_rpm e ideal gbs = Inr rs" by auto
  from Cons.prems have "ratios gb \<noteq> []" "0 \<notin> set (ratios gb)" by simp_all
  from pair_row_returns [OF this assms(2,3)] obtain r where
    "pair_row spec req target_rpm e ideal gb = Inr r" by blast
  with rs show ?case by simp
qed

lemma engine_loop_returns:
  assumes "list_all (\<lambda>gb. ratios gb \<noteq> [] \<and> 0 \<notin> set (ratios gb)) gbs"
    and "req \<noteq> 0" and "target_rpm \<noteq> 0"
    and "list_all (\<lambda>e. rated_rpm e \<noteq> 0) es"
  shows "\<exists>rows. engine_loop spec req target_rpm gbs es = Inr rows"
  using assms(4)
proof (induction es)
  case Nil
  show ?case by simp
next
  case (Cons e es)
  then obtain rss where rss: "engine_loop spec req target_rpm gbs es = Inr rss" by auto
  from Cons.prems assms(3) have "real_of_int (rated_rpm e) / real_of_int target_rpm \<noteq> 0"
    by simp
  from gearbox_loop_returns [OF assms(1,2) this] obtain rs where
    "gearbox_loop spec req target_rpm e (real_of_int (rated_rpm e) / real_of_int target_rpm) gbs
       = Inr rs" by blast
  with rss assms(3) show ?case by simp
qed

lemma select_propulsion_returns:
  assumes "valid_spec spec" and "catalogs_ok engines gbs" and "choose_target_prop_rpm spec \<noteq> 0"
  shows "\<exists>df total_kw. 0 < total_kw \<and> estimate_total_power_kw spec = Inr total_kw \<and>
           select_propulsion sort_values engines gbs spec =
             Inr (df, total_kw, total_kw * (1.0 + power_margin spec),
                  total_kw * (1.0 + power_margin spec) / real_of_int (shafts spec),
                  choose_target_prop_rpm spec)"
proof -
  from estimate_valid_pos [OF assms(1)] obtain total_kw where
    pos: "0 < total_kw" and est: "estimate_total_power_kw spec = Inr total_kw" by blast
  define req where "req = total_kw * (1.0 + power_margin spec) / real_of_int (shafts spec)"
  define engines_f where "engines_f = filter_engines (fuel spec) req (max_engine_length_mm spec)
                (max_engine_weight_kg spec) (budget_usd spec) engines"
  from assms(1) have sh: "1 \<le> shafts spec" and m: "0 \<le> power_margin spec"
    by (simp_all add: valid_spec_def)
  from pos sh m have "0 < req" by (simp add: req_def)
  then have req0: "req \<noteq> 0" by simp
  from assms(2) have gb_ok: "list_all (\<lambda>gb. ratios gb \<noteq> [] \<and> 0 \<notin> set (ratios gb)) gbs"
    and "list_all (\<lambda>e. rated_rpm e \<noteq> 0) engines"
    by (simp_all add: catalogs_ok_def)
  then have "list_all (\<lambda>e. rated_rpm e \<noteq> 0) engines_f"
    by (simp add: engines_f_def filter_engines_def list_all_iff)
  from engine_loop_returns [OF gb_ok req0 assms(3) this] obtain rows where
    "engine_loop spec req (choose_target_prop_rpm spec) gbs engines_f = Inr rows" by blast
  then have "engine_loop spec
      (total_kw * (1.0 + power_margin spec) / real_of_int (shafts spec))
      (choose_target_prop_rpm spec) gbs
      (filter_engines (fuel spec)
         (total_kw * (1.0 + power_margin spec) / real_of_int (shafts spec))
         (max_engine_length_mm spec) (max_engine_weight_kg spec) (budget_usd spec) engines)
      = Inr rows"
    by (simp only: req_def engines_f_def)
  with est sh pos show ?thesis
    by (auto simp: select_propulsion_def Let_def)
qed

lemma shipped_catalogs_ok: "catalogs_ok ENGINE_CATALOG GEARBOX_CATALOG"
  by (simp add: catalogs_ok_def ENGINE_CATALOG_def GEARBOX_CATALOG_def)

section \<open>When no pair survives\<close>

lemma gearbox_loop_none:
  assumes "filter (\<lambda>gb. \<not> gearbox_too_small e gb) gbs = []"
  shows "gearbox_loop spec req target_rpm e ideal gbs = Inr []"
  using assms by (induction gbs) (auto split: if_splits)

lemma engine_loop_none:
  assumes "surviving_pairs es gbs = []" and "target_rpm \<noteq> 0"
  shows "engine_loop spec req target_rpm gbs es = Inr []"
  using assms(1)
proof (induction es)
  case Nil
  show ?case by simp
next
  case (Cons e es)
  then have "filter (\<lambda>gb. \<not> gearbox_too_small e gb) gbs = []" and "surviving_pairs es gbs = []"
    by (simp_all add: surviving_pairs_Cons)
  with Cons.IH assms(2) show ?case by (simp add: gearbox_loop_none)
qed

lemma engine_loop_zero_target:
  "es \<noteq> [] \<Longrightarrow> engine_loop spec req 0 gbs es = Inl ZeroDivisionError"
  by (cases es) simp_all

section \<open>The score reads the request's budget only\<close>

lemma pair_row_budget:
  "budget_usd spec = budget_usd spec' \<Longrightarrow>
     pair_row spec req target_rpm e ideal gb = pair_row spec' req target_rpm e ideal gb"
  by (simp add: pair_row_def Let_def split: sum.splits)

lemma gearbox_loop_budget:
  "budget_usd spec = budget_usd spec' \<Longrightarrow>
     gearbox_loop spec req target_rpm e ideal gbs = gearbox_loop spec' req target_rpm e ideal gbs"
  by (induction gbs) (simp_all add: pair_row_budget [of spec spec'] split: sum.splits)

lemma engine_loop_budget:
  "budget_usd spec = budget_usd spec' \<Longrightarrow>
     engine_loop spec req target_rpm gbs es = engine_loop spec' req target_rpm gbs es"
  by (induction es) (simp_all add: gearbox_loop_budget [of spec spec'] split: sum.splits)

lemma select_propulsion_unrecognised:
  assumes "\<not> recognised_hull (hull_type spec)"
  shows "select_propulsion sort_values engines gbs spec =
           Inl (ValueError ''hull_type must be: displacement, semi-displacement, or planing'')"
  by (simp add: select_propulsion_def estimate_unrecognised [OF assms])

section \<open>More concrete requests evaluated\<close>

lemma heavy_spec_valid: "valid_spec heavy_spec"
  by (simp add: valid_spec_def recognised_hull_def heavy_spec_def string_eval)

lemma heavy_total_kw_value: "heavy_total_kw = 352739200000000 / 183585924121"
  by (simp add: heavy_total_kw_def hp_to_kw_def hp_plan_def power2_eq_square)

lemma heavy_spec_estimate: "estimate_total_power_kw heavy_spec = Inr heavy_total_kw"
  by (simp add: estimate_total_power_kw_def heavy_spec_def heavy_total_kw_def string_eval)

lemma heavy_spec_engines:
  "filter_engines ''diesel'' heavy_req 1000000000 1000000000 1000000000 ENGINE_CATALOG =
     [ENGINE_CATALOG ! 6]"
  by (simp add: filter_engines_def engine_mask_def heavy_req_def heavy_total_kw_value
      ENGINE_CATALOG_def string_eval)

lemma heavy_no_pairs: "surviving_pairs [ENGINE_CATALOG ! 6] [GEARBOX_CATALOG ! 0] = []"
  by (simp add: surviving_pairs_def gearbox_too_small_def ENGINE_CATALOG_def GEARBOX_CATALOG_def)

lemma heavy_zero_filter:
  "filter_engines (fuel (heavy_spec\<lparr>desired_prop_rpm := Some 0\<rparr>))
     (heavy_total_kw * (1.0 + power_margin (heavy_spec\<lparr>desired_prop_rpm := Some 0\<rparr>)) /
        real_of_int (shafts (heavy_spec\<lparr>desired_prop_rpm := Some 0\<rparr>)))
     (max_engine_length_mm (heavy_spec\<lparr>desired_prop_rpm := Some 0\<rparr>))
     (max_engine_weight_kg (heavy_spec\<lparr>desired_prop_rpm := Some 0\<rparr>))
     (budget_usd (heavy_spec\<lparr>desired_prop_rpm := Some 0\<rparr>)) ENGINE_CATALOG = [ENGINE_CATALOG ! 6]"
  using heavy_spec_engines by (simp add: heavy_spec_def heavy_req_def)

lemma frugal_spec_valid: "valid_spec frugal_spec"
  by (simp add: valid_spec_def recognised_hull_def frugal_spec_def string_eval)

lemma frugal_spec_estimate: "estimate_total_power_kw frugal_spec = Inr tie_total_kw"
  by (simp add: estimate_total_power_kw_def frugal_spec_def tie_total_kw_def string_eval)

lemma frugal_spec_engines:
  "filter_engines (fuel frugal_spec)
     (tie_total_kw * (1.0 + power_margin frugal_spec) / real_of_int (shafts frugal_spec))
     (max_engine_length_mm frugal_spec) (max_engine_weight_kg frugal_spec)
     (budget_usd frugal_spec) ENGINE_CATALOG = []"
  by (simp add: filter_engines_def engine_mask_def frugal_spec_def ENGINE_CATALOG_def)

lemma heavy_spec_filter:
  "filter_engines (fuel heavy_spec)
     (heavy_total_kw * (1.0 + power_margin heavy_spec) / real_of_int (shafts heavy_spec))
     (max_engine_length_mm heavy_spec) (max_engine_weight_kg heavy_spec)
     (budget_usd heavy_spec) ENGINE_CATALOG = [ENGINE_CATALOG ! 6]"
  using heavy_spec_engines by (simp add: heavy_spec_def heavy_req_def)

lemma heavy_spec_target: "choose_target_prop_rpm heavy_spec = 1300"
  by (simp add: choose_target_prop_rpm_def heavy_spec_def string_eval)

lemma astern_spec_estimate: "estimate_total_power_kw astern_spec = Inr tie_total_kw"
  by (simp add: estimate_total_power_kw_def astern_spec_def tie_total_kw_def string_eval
      hp_plan_def)

lemma astern_spec_select:
  "select_propulsion sort_values ENGINE_CATALOG GEARBOX_CATALOG astern_spec =
     Inr (ResultFrame (sort_values tie_rows), tie_total_kw, tie_total_kw * (1.0 + 0.15),
          tie_req, 1300)"
proof -
  have m: "power_margin astern_spec = 0.15" and s: "shafts astern_spec = 2"
    by (simp_all add: astern_spec_def)
  have r: "tie_req = tie_total_kw * (1.0 + power_margin astern_spec) / real_of_int (shafts astern_spec)"
    by (simp add: tie_req_def m s)
  have t: "choose_target_prop_rpm astern_spec = 1300"
    by (simp add: choose_target_prop_rpm_def astern_spec_def string_eval)
  have f: "filter_engines (fuel astern_spec) tie_req (max_engine_length_mm astern_spec)
              (max_engine_weight_kg astern_spec) (budget_usd astern_spec) ENGINE_CATALOG =
           [ENGINE_CATALOG ! 0, ENGINE_CATALOG ! 3, ENGINE_CATALOG ! 5]"
    using tie_spec_engines by (simp add: astern_spec_def tie_spec_def)
  have b: "budget_usd astern_spec = budget_usd tie_spec"
    by (simp add: astern_spec_def tie_spec_def)
  have ne: "tie_rows \<noteq> []" by (simp add: tie_rows_def)
  have "select_propulsion sort_values ENGINE_CATALOG GEARBOX_CATALOG astern_spec =
          Inr (ResultFrame (sort_values tie_rows), tie_total_kw,
               tie_total_kw * (1.0 + power_margin astern_spec), tie_req,
               choose_target_prop_rpm astern_spec)"
    using astern_spec_estimate _ r _ ne
  proof (rule select_propulsion_ResultFrameI)
    show "shafts astern_spec \<noteq> 0" by (simp add: s)
    show "engine_loop astern_spec tie_req (choose_target_prop_rpm astern_spec) GEARBOX_CATALOG
           (filter_engines (fuel astern_spec) tie_req (max_engine_length_mm astern_spec)
              (max_engine_weight_kg astern_spec) (budget_usd astern_spec) ENGINE_CATALOG) = Inr tie_rows"
      by (simp only: t f engine_loop_budget [OF b] tie_spec_loop)
  qed
  then show ?thesis by (simp add: m t)
qed

section \<open>Ratio choice\<close>

text \<open>
  C3. For engines and gearboxes of the shipped catalogs: the rows the two loops produce
  correspond, one to one and in order, to the (engine, gearbox) pairs that pass the
  gearbox test. The gear ratio of each row is a member of that gearbox's ratio list, no
  ratio of the list is closer to \<open>rated_rpm / target_rpm\<close>, and every ratio that stands
  before it in the list is strictly farther: among equally near ratios the first one is
  chosen.
\<close>

theorem chosen_ratio_nearest_first:
  assumes "set es \<subseteq> set ENGINE_CATALOG" and "set gbs \<subseteq> set GEARBOX_CATALOG"
    and "engine_loop spec req target_rpm gbs es = Inr rows"
  shows "list_all2 (row_of_pair target_rpm) (surviving_pairs es gbs) rows"
proof -
  from engine_loop_rows [OF assms(3)] show ?thesis
  proof (rule list_all2_mono)
    fix p r
    assume "pair_row spec req target_rpm (fst p)
              (real_of_int (rated_rpm (fst p)) / real_of_int target_rpm) (snd p) = Inr r"
    from pair_row_fields [OF this] show "row_of_pair target_rpm p r"
      by (simp add: row_of_pair_def nearest_ratio_nearest_first)
  qed
qed

text \<open>
  Two evaluations. At the target speed 1300 the seven pairings of \<open>tie_spec\<close> all take
  the ratio 2.5. At the target speed 1200 the ideal ratio of the 6LY-440 is 2.75: the
  ratios 2.5 and 3.0 are equally near, and both gearboxes that fit take 2.5, which
  stands first in their lists.
\<close>

theorem chosen_ratio_nearest_first_witness:
  "engine_loop tie_spec tie_req 1300 GEARBOX_CATALOG
     [ENGINE_CATALOG ! 0, ENGINE_CATALOG ! 3, ENGINE_CATALOG ! 5] = Inr tie_rows \<and>
   list_all2 (row_of_pair 1300)
     (surviving_pairs [ENGINE_CATALOG ! 0, ENGINE_CATALOG ! 3, ENGINE_CATALOG ! 5] GEARBOX_CATALOG)
     tie_rows \<and>
   map (\<lambda>p. (engine_model (fst p), gb_name (snd p)))
     (surviving_pairs [ENGINE_CATALOG ! 0, ENGINE_CATALOG ! 3, ENGINE_CATALOG ! 5] GEARBOX_CATALOG) =
   [(''D6-480'', ''ZF 45A''), (''D6-480'', ''Twin Disc MGX''),
    (''QSB6.7'', ''ZF 45A''), (''QSB6.7'', ''ZF 63A''), (''QSB6.7'', ''Twin Disc MGX''),
    (''6LY-440'', ''ZF 45A''), (''6LY-440'', ''Twin Disc MGX'')] \<and>
   map gear_ratio tie_rows = [5 / 2, 5 / 2, 5 / 2, 5 / 2, 5 / 2, 5 / 2, 5 / 2] \<and>
   engine_loop tie_spec tie_req 1200 GEARBOX_CATALOG [ENGINE_CATALOG ! 5] = Inr halfway_rows \<and>
   list_all2 (row_of_pair 1200)
     [(ENGINE_CATALOG ! 5, GEARBOX_CATALOG ! 0), (ENGINE_CATALOG ! 5, GEARBOX_CATALOG ! 2)]
     halfway_rows \<and>
   map (\<lambda>r. (gearbox r, gear_ratio r)) halfway_rows =
     [(''ZF 45A'', 5 / 2), (''Twin Disc MGX'', 5 / 2)] \<and>
   real_of_int (rated_rpm (ENGINE_CATALOG ! 5)) / real_of_int 1200 = 11 / 4 \<and>
   \<bar>5 / 2 - 11 / 4\<bar> = \<bar>3 - 11 / (4::real)\<bar>"
proof -
  have es: "set [ENGINE_CATALOG ! 0, ENGINE_CATALOG ! 3, ENGINE_CATALOG ! 5] \<subseteq> set ENGINE_CATALOG"
    "set [ENGINE_CATALOG ! 5] \<subseteq> set ENGINE_CATALOG"
    by (simp_all add: ENGINE_CATALOG_def)
  have gbs: "set GEARBOX_CATALOG \<subseteq> set GEARBOX_CATALOG" by simp
  have ratios: "map gear_ratio tie_rows = [5 / 2, 5 / 2, 5 / 2, 5 / 2, 5 / 2, 5 / 2, 5 / 2]"
    "map (\<lambda>r. (gearbox r, gear_ratio r)) halfway_rows =
       [(''ZF 45A'', 5 / 2), (''Twin Disc MGX'', 5 / 2)]"
    by (simp_all add: tie_rows_def halfway_rows_def)
  have ideal: "real_of_int (rated_rpm (ENGINE_CATALOG ! 5)) / real_of_int 1200 = 11 / 4"
    "\<bar>5 / 2 - 11 / 4\<bar> = \<bar>3 - 11 / (4::real)\<bar>"
    by (simp_all add: ENGINE_CATALOG_def)
  from chosen_ratio_nearest_first [OF es(2) gbs halfway_loop]
  have halfway: "list_all2 (row_of_pair 1200)
     [(ENGINE_CATALOG ! 5, GEARBOX_CATALOG ! 0), (ENGINE_CATALOG ! 5, GEARBOX_CATALOG ! 2)]
     halfway_rows"
    by (simp only: halfway_surviving)
  from chosen_ratio_nearest_first [OF es(1) gbs tie_spec_loop] tie_spec_loop tie_surviving
    ratios(1) halfway_loop halfway ratios(2) ideal
  show ?thesis by (intro conjI)
qed

section \<open>Power figures\<close>

text \<open>
  C4. Whenever \<^verbatim>\<open>select_propulsion\<close> returns, the second figure is the first one times
  \<open>1 + power_margin\<close>, the third is the second divided by the shaft count, and the first
  is the value of \<^verbatim>\<open>estimate_total_power_kw\<close>.
\<close>

theorem power_figures_exact:
  assumes "select_propulsion sort_values engines gbs spec = Inr (df, total_kw, with_margin, req, target_rpm)"
  shows "with_margin = total_kw * (1 + power_margin spec) \<and>
         req = with_margin / real_of_int (shafts spec) \<and>
         estimate_total_power_kw spec = Inr total_kw"
  using select_propulsion_Inr [OF assms] by simp

theorem power_figures_exact_witness:
  "select_propulsion sort_desc_stable ENGINE_CATALOG GEARBOX_CATALOG tie_spec =
     Inr (ResultFrame (sort_desc_stable tie_rows), tie_total_kw, tie_total_kw * (1.0 + 0.15),
          tie_req, 1300) \<and>
   tie_total_kw * (1.0 + 0.15) = tie_total_kw * (1 + power_margin tie_spec) \<and>
   tie_req = tie_total_kw * (1.0 + 0.15) / real_of_int (shafts tie_spec) \<and>
   estimate_total_power_kw tie_spec = Inr tie_total_kw"
  using power_figures_exact [OF tie_spec_select [of sort_desc_stable]]
    tie_spec_select [of sort_desc_stable]
  by (intro conjI) simp_all

section \<open>The semi-displacement blend\<close>



section \<open>Engine filter\<close>

lemma length_filter_mono:
  assumes "\<And>x. x \<in> set xs \<Longrightarrow> P x \<Longrightarrow> Q x"
  shows "length (filter P xs) \<le> length (filter Q xs)"
  using assms
proof (induction xs)
  case Nil
  show ?case by simp
next
  case (Cons x xs)
  then have "length (filter P xs) \<le> length (filter Q xs)" by simp
  moreover have "P x \<Longrightarrow> Q x" using Cons.prems by simp
  ultimately show ?case by auto
qed

text \<open>
  C6. Raising the required power, or lowering the length limit, the weight limit or the
  budget, never lets an engine in that was out: the filtered list gets no longer. The
  comparisons are inclusive: an engine of the right fuel passes a filter whose required
  power, length limit, weight limit and budget are exactly its own figures.
\<close>

theorem filter_engines_monotone:
  assumes "req \<le> req'" and "max_length' \<le> max_length" and "max_weight' \<le> max_weight"
    and "budget' \<le> budget"
  shows "length (filter_engines spec_fuel req' max_length' max_weight' budget' engines) \<le>
           length (filter_engines spec_fuel req max_length max_weight budget engines) \<and>
         set (filter_engines spec_fuel req' max_length' max_weight' budget' engines) \<subseteq>
           set (filter_engines spec_fuel req max_length max_weight budget engines) \<and>
         (\<forall>e. lower (engine_fuel e) = lower spec_fuel \<longrightarrow>
              engine_mask spec_fuel (real_of_int (power_kw e)) (length_mm e)
                (real_of_int (dry_weight_kg e)) (real_of_int (price_usd_est e)) e)"
proof -
  have imp: "engine_mask spec_fuel req' max_length' max_weight' budget' e \<Longrightarrow>
             engine_mask spec_fuel req max_length max_weight budget e" for e
    using assms by (auto simp: engine_mask_def)
  have "length (filter_engines spec_fuel req' max_length' max_weight' budget' engines) \<le>
           length (filter_engines spec_fuel req max_length max_weight budget engines)"
    unfolding filter_engines_def by (rule length_filter_mono) (rule imp)
  moreover have "set (filter_engines spec_fuel req' max_length' max_weight' budget' engines) \<subseteq>
           set (filter_engines spec_fuel req max_length max_weight budget engines)"
    unfolding filter_engines_def using imp by auto
  ultimately show ?thesis by (simp add: engine_mask_def)
qed

theorem filter_engines_monotone_witness:
  "map engine_model (filter_engines ''Diesel'' 400 1500 1200 100000 ENGINE_CATALOG) =
     [''D8-600'', ''QSB6.7'', ''QSC8.3''] \<and>
   map engine_model (filter_engines ''Diesel'' 410 1500 1200 98000 ENGINE_CATALOG) =
     [''D8-600'', ''QSB6.7'', ''QSC8.3''] \<and>
   map engine_model (filter_engines ''Diesel'' 411 1499 1199 97999 ENGINE_CATALOG) = [''QSC8.3''] \<and>
   length (filter_engines ''Diesel'' 411 1499 1199 97999 ENGINE_CATALOG) \<le>
     length (filter_engines ''Diesel'' 400 1500 1200 100000 ENGINE_CATALOG) \<and>
   engine_mask ''Diesel'' 410 1200 650 65000 (ENGINE_CATALOG ! 3)"
proof -
  have le: "(400::real) \<le> 411" "(1499::int) \<le> 1500" "(1199::real) \<le> 1200"
    "(97999::real) \<le> 100000" by simp_all
  from filter_engines_monotone [OF le, of "''Diesel''" ENGINE_CATALOG]
  have "length (filter_engines ''Diesel'' 411 1499 1199 97999 ENGINE_CATALOG) \<le>
     length (filter_engines ''Diesel'' 400 1500 1200 100000 ENGINE_CATALOG)"
    and incl: "\<forall>e. lower (engine_fuel e) = lower ''Diesel'' \<longrightarrow>
              engine_mask ''Diesel'' (real_of_int (power_kw e)) (length_mm e)
                (real_of_int (dry_weight_kg e)) (real_of_int (price_usd_est e)) e"
    by blast+
  moreover have "lower (engine_fuel (ENGINE_CATALOG ! 3)) = lower ''Diesel''"
    by (simp add: ENGINE_CATALOG_def string_eval)
  with incl have "engine_mask ''Diesel'' (real_of_int (power_kw (ENGINE_CATALOG ! 3)))
      (length_mm (ENGINE_CATALOG ! 3)) (real_of_int (dry_weight_kg (ENGINE_CATALOG ! 3)))
      (real_of_int (price_usd_est (ENGINE_CATALOG ! 3))) (ENGINE_CATALOG ! 3)" by blast
  then have "engine_mask ''Diesel'' 410 1200 650 65000 (ENGINE_CATALOG ! 3)"
    by (simp add: ENGINE_CATALOG_def)
  moreover have
    "map engine_model (filter_engines ''Diesel'' 400 1500 1200 100000 ENGINE_CATALOG) =
       [''D8-600'', ''QSB6.7'', ''QSC8.3'']"
    "map engine_model (filter_engines ''Diesel'' 410 1500 1200 98000 ENGINE_CATALOG) =
       [''D8-600'', ''QSB6.7'', ''QSC8.3'']"
    "map engine_model (filter_engines ''Diesel'' 411 1499 1199 97999 ENGINE_CATALOG) = [''QSC8.3'']"
    by (simp_all add: filter_engines_def engine_mask_def ENGINE_CATALOG_def string_eval)
  ultimately show ?thesis by (intro conjI)
qed

section \<open>Rejected requests\<close>

text \<open>
  C1, as amended. The only check \<^verbatim>\<open>estimate_total_power_kw\<close> makes is the one on the hull
  class. When the stripped, lower-cased hull class is not recognised, the estimate and
  \<^verbatim>\<open>select_propulsion\<close> both end in the \<^verbatim>\<open>ValueError\<close>, and no figure or row is returned.
  When it is recognised, the estimate returns a number whatever the displacement and the
  speed are; neither is compared with zero anywhere.
\<close>

theorem hull_class_is_the_only_check:
  "(\<not> recognised_hull (hull_type spec) \<longrightarrow>
      estimate_total_power_kw spec =
        Inl (ValueError ''hull_type must be: displacement, semi-displacement, or planing'') \<and>
      select_propulsion sort_values engines gbs spec =
        Inl (ValueError ''hull_type must be: displacement, semi-displacement, or planing'')) \<and>
   (recognised_hull (hull_type spec) \<longrightarrow> (\<exists>kw. estimate_total_power_kw spec = Inr kw))"
  using estimate_unrecognised [of spec] select_propulsion_unrecognised [of spec]
    estimate_recognised [of spec]
  by blast

theorem hull_class_is_the_only_check_witness:
  "estimate_total_power_kw (tie_spec\<lparr>hull_type := ''hovercraft''\<rparr>) =
     Inl (ValueError ''hull_type must be: displacement, semi-displacement, or planing'') \<and>
   select_propulsion sort_desc_stable ENGINE_CATALOG GEARBOX_CATALOG
       (tie_spec\<lparr>hull_type := ''hovercraft''\<rparr>) =
     Inl (ValueError ''hull_type must be: displacement, semi-displacement, or planing'') \<and>
   recognised_hull (hull_type (tie_spec\<lparr>hull_type := ''  Displacement ''\<rparr>)) \<and>
   (\<exists>kw. estimate_total_power_kw (tie_spec\<lparr>hull_type := ''  Displacement ''\<rparr>) = Inr kw)"
proof -
  have a: "\<not> recognised_hull (hull_type (tie_spec\<lparr>hull_type := ''hovercraft''\<rparr>))"
    by (simp add: recognised_hull_def string_eval)
  have b: "recognised_hull (hull_type (tie_spec\<lparr>hull_type := ''  Displacement ''\<rparr>))"
    by (simp add: recognised_hull_def string_eval)
  from hull_class_is_the_only_check
         [of "tie_spec\<lparr>hull_type := ''hovercraft''\<rparr>" sort_desc_stable ENGINE_CATALOG GEARBOX_CATALOG] a
    hull_class_is_the_only_check [of "tie_spec\<lparr>hull_type := ''  Displacement ''\<rparr>"] b
  show ?thesis by blast
qed

text \<open>
  The claim as stated also wants the error for a non-positive speed or displacement. The
  request \<open>astern_spec\<close> has a recognised hull class and the speed -10: the planing formula
  squares the speed, the estimate is the one for +10 kn, and the full ranking is returned.
  With the displacement 0 the estimate returns 0.
\<close>

theorem nonpositive_speed_counterexample:
  "recognised_hull (hull_type astern_spec) \<and>
   target_speed_kn astern_spec = - 10 \<and>
   estimate_total_power_kw astern_spec = Inr (8818480000000 / 183585924121) \<and>
   select_propulsion sort_desc_stable ENGINE_CATALOG GEARBOX_CATALOG astern_spec =
     Inr (ResultFrame (sort_desc_stable tie_rows), tie_total_kw, tie_total_kw * (1.0 + 0.15),
          tie_req, 1300) \<and>
   estimate_total_power_kw (astern_spec\<lparr>displacement_tonnes := 0\<rparr>) = Inr 0"
proof -
  have "recognised_hull (hull_type astern_spec)" "target_speed_kn astern_spec = - 10"
    by (simp_all add: recognised_hull_def astern_spec_def string_eval)
  moreover have "estimate_total_power_kw astern_spec = Inr (8818480000000 / 183585924121)"
    by (simp add: astern_spec_estimate tie_total_kw_value)
  moreover have "estimate_total_power_kw (astern_spec\<lparr>displacement_tonnes := 0\<rparr>) = Inr 0"
    by (simp add: estimate_total_power_kw_def astern_spec_def string_eval hp_plan_def hp_to_kw_def)
  ultimately show ?thesis using astern_spec_select [of sort_desc_stable] by (intro conjI)
qed

section \<open>Empty results\<close>

text \<open>
  C8, as amended. For a valid request the estimate returns, and: when no engine passes
  the filter, \<^verbatim>\<open>select_propulsion\<close> returns the no-engine frame together with the four
  figures; when engines pass, no pair passes the gearbox test and the target propeller
  speed is not 0, it returns the no-gearbox frame together with the four figures. The
  two frames differ in shape and in their status text.
\<close>

theorem no_match_outcomes:
  assumes "valid_spec spec"
  shows "\<exists>total_kw. estimate_total_power_kw spec = Inr total_kw \<and>
     (let with_margin = total_kw * (1.0 + power_margin spec);
          req = with_margin / real_of_int (shafts spec);
          target_rpm = choose_target_prop_rpm spec;
          engines_f = filter_engines (fuel spec) req (max_engine_length_mm spec)
                        (max_engine_weight_kg spec) (budget_usd spec) engines
      in (engines_f = [] \<longrightarrow>
            select_propulsion sort_values engines gbs spec =
              Inr (NoEngineFrame ''No engine matches found with current constraints.''
                     (py_round_digits total_kw 1) (py_round_digits req 1)
                     ''Increase budget/space limits, reduce margin, add more engines to catalog, or lower target speed.'',
                   total_kw, with_margin, req, target_rpm)) \<and>
         (engines_f \<noteq> [] \<and> surviving_pairs engines_f gbs = [] \<and> target_rpm \<noteq> 0 \<longrightarrow>
            select_propulsion sort_values engines gbs spec =
              Inr (NoGearboxFrame
                     ''Engines matched, but no gearbox matched power/rpm constraints.''
                     ''Add gearbox models to catalog or raise gearbox limits.'',
                   total_kw, with_margin, req, target_rpm)))"
proof -
  from estimate_valid_pos [OF assms] obtain total_kw where
    est: "estimate_total_power_kw spec = Inr total_kw" by blast
  from assms have sh: "shafts spec \<noteq> 0" by (auto simp: valid_spec_def)
  show ?thesis
  proof (intro exI conjI)
    show "estimate_total_power_kw spec = Inr total_kw" by (rule est)
    show "let with_margin = total_kw * (1.0 + power_margin spec);
          req = with_margin / real_of_int (shafts spec);
          target_rpm = choose_target_prop_rpm spec;
          engines_f = filter_engines (fuel spec) req (max_engine_length_mm spec)
                        (max_engine_weight_kg spec) (budget_usd spec) engines
      in (engines_f = [] \<longrightarrow>
            select_propulsion sort_values engines gbs spec =
              Inr (NoEngineFrame ''No engine matches found with current constraints.''
                     (py_round_digits total_kw 1) (py_round_digits req 1)
                     ''Increase budget/space limits, reduce margin, add more engines to catalog, or lower target speed.'',
                   total_kw, with_margin, req, target_rpm)) \<and>
         (engines_f \<noteq> [] \<and> surviving_pairs engines_f gbs = [] \<and> target_rpm \<noteq> 0 \<longrightarrow>
            select_propulsion sort_values engines gbs spec =
              Inr (NoGearboxFrame
                     ''Engines matched, but no gearbox matched power/rpm constraints.''
                     ''Add gearbox models to catalog or raise gearbox limits.'',
                   total_kw, with_margin, req, target_rpm))"
      using est sh
      by (simp add: select_propulsion_def Let_def engine_loop_none)
  qed
qed

theorem no_match_outcomes_witness:
  "select_propulsion sort_desc_stable ENGINE_CATALOG GEARBOX_CATALOG frugal_spec =
     Inr (NoEngineFrame ''No engine matches found with current constraints.'' 48 (138 / 5)
            ''Increase budget/space limits, reduce margin, add more engines to catalog, or lower target speed.'',
          tie_total_kw, tie_total_kw * (1.0 + 0.15), tie_req, 1300) \<and>
   select_propulsion sort_desc_stable ENGINE_CATALOG [GEARBOX_CATALOG ! 0] heavy_spec =
     Inr (NoGearboxFrame ''Engines matched, but no gearbox matched power/rpm constraints.''
            ''Add gearbox models to catalog or raise gearbox limits.'',
          heavy_total_kw, heavy_total_kw * (1.0 + 0.15), heavy_req, 1300)"
proof -
  from no_match_outcomes [OF frugal_spec_valid, of ENGINE_CATALOG sort_desc_stable GEARBOX_CATALOG]
  obtain total_a where
    est_a: "estimate_total_power_kw frugal_spec = Inr total_a" and
    out_a: "let with_margin = total_a * (1.0 + power_margin frugal_spec);
          req = with_margin / real_of_int (shafts frugal_spec);
          target_rpm = choose_target_prop_rpm frugal_spec;
          engines_f = filter_engines (fuel frugal_spec) req (max_engine_length_mm frugal_spec)
                        (max_engine_weight_kg frugal_spec) (budget_usd frugal_spec) ENGINE_CATALOG
      in (engines_f = [] \<longrightarrow>
            select_propulsion sort_desc_stable ENGINE_CATALOG GEARBOX_CATALOG frugal_spec =
              Inr (NoEngineFrame ''No engine matches found with current constraints.''
                     (py_round_digits total_a 1) (py_round_digits req 1)
                     ''Increase budget/space limits, reduce margin, add more engines to catalog, or lower target speed.'',
                   total_a, with_margin, req, target_rpm)) \<and>
         (engines_f \<noteq> [] \<and> surviving_pairs engines_f GEARBOX_CATALOG = [] \<and> target_rpm \<noteq> 0 \<longrightarrow>
            select_propulsion sort_desc_stable ENGINE_CATALOG GEARBOX_CATALOG frugal_spec =
              Inr (NoGearboxFrame
                     ''Engines matched, but no gearbox matched power/rpm constraints.''
                     ''Add gearbox models to catalog or raise gearbox limits.'',
                   total_a, with_margin, req, target_rpm))"
    by blast
  from est_a frugal_spec_estimate have tot_a: "total_a = tie_total_kw" by simp
  from out_a [unfolded Let_def tot_a] frugal_spec_engines
  have "select_propulsion sort_desc_stable ENGINE_CATALOG GEARBOX_CATALOG frugal_spec =
          Inr (NoEngineFrame ''No engine matches found with current constraints.''
                 (py_round_digits tie_total_kw 1)
                 (py_round_digits (tie_total_kw * (1.0 + power_margin frugal_spec) /
                                    real_of_int (shafts frugal_spec)) 1)
                 ''Increase budget/space limits, reduce margin, add more engines to catalog, or lower target speed.'',
               tie_total_kw, tie_total_kw * (1.0 + power_margin frugal_spec),
               tie_total_kw * (1.0 + power_margin frugal_spec) / real_of_int (shafts frugal_spec),
               choose_target_prop_rpm frugal_spec)"
    by blast
  moreover have "power_margin frugal_spec = 0.15" "shafts frugal_spec = 2"
    "choose_target_prop_rpm frugal_spec = 1300"
    by (simp_all add: frugal_spec_def choose_target_prop_rpm_def string_eval)
  moreover have "py_round_digits tie_total_kw 1 = 48"
    "py_round_digits (tie_total_kw * (1.0 + 0.15) / 2) 1 = 138 / 5"
    by (simp_all add: py_round_digits_def py_round_def tie_total_kw_value)
  ultimately have a: "select_propulsion sort_desc_stable ENGINE_CATALOG GEARBOX_CATALOG frugal_spec =
     Inr (NoEngineFrame ''No engine matches found with current constraints.'' 48 (138 / 5)
            ''Increase budget/space limits, reduce margin, add more engines to catalog, or lower target speed.'',
          tie_total_kw, tie_total_kw * (1.0 + 0.15), tie_req, 1300)"
    by (simp add: tie_req_def)
  from no_match_outcomes [OF heavy_spec_valid, of ENGINE_CATALOG sort_desc_stable "[GEARBOX_CATALOG ! 0]"]
  obtain total_b where
    est_b: "estimate_total_power_kw heavy_spec = Inr total_b" and
    out_b: "let with_margin = total_b * (1.0 + power_margin heavy_spec);
          req = with_margin / real_of_int (shafts heavy_spec);
          target_rpm = choose_target_prop_rpm heavy_spec;
          engines_f = filter_engines (fuel heavy_spec) req (max_engine_length_mm heavy_spec)
                        (max_engine_weight_kg heavy_spec) (budget_usd heavy_spec) ENGINE_CATALOG
      in (engines_f = [] \<longrightarrow>
            select_propulsion sort_desc_stable ENGINE_CATALOG [GEARBOX_CATALOG ! 0] heavy_spec =
              Inr (NoEngineFrame ''No engine matches found with current constraints.''
                     (py_round_digits total_b 1) (py_round_digits req 1)
                     ''Increase budget/space limits, reduce margin, add more engines to catalog, or lower target speed.'',
                   total_b, with_margin, req, target_rpm)) \<and>
         (engines_f \<noteq> [] \<and> surviving_pairs engines_f [GEARBOX_CATALOG ! 0] = [] \<and> target_rpm \<noteq> 0 \<longrightarrow>
            select_propulsion sort_desc_stable ENGINE_CATALOG [GEARBOX_CATALOG ! 0] heavy_spec =
              Inr (NoGearboxFrame
                     ''Engines matched, but no gearbox matched power/rpm constraints.''
                     ''Add gearbox models to catalog or raise gearbox limits.'',
                   total_b, with_margin, req, target_rpm))"
    by blast
  from est_b heavy_spec_estimate have tot_b: "total_b = heavy_total_kw" by simp
  have pre: "[ENGINE_CATALOG ! 6] \<noteq> [] \<and>
             surviving_pairs [ENGINE_CATALOG ! 6] [GEARBOX_CATALOG ! 0] = [] \<and> (1300::int) \<noteq> 0"
    using heavy_no_pairs by simp
  from out_b [unfolded Let_def tot_b heavy_spec_filter heavy_spec_target] pre
  have "select_propulsion sort_desc_stable ENGINE_CATALOG [GEARBOX_CATALOG ! 0] heavy_spec =
              Inr (NoGearboxFrame
                     ''Engines matched, but no gearbox matched power/rpm constraints.''
                     ''Add gearbox models to catalog or raise gearbox limits.'',
                   heavy_total_kw, heavy_total_kw * (1.0 + power_margin heavy_spec),
                   heavy_total_kw * (1.0 + power_margin heavy_spec) / real_of_int (shafts heavy_spec),
                   1300)"
    by blast
  moreover have "power_margin heavy_spec = 0.15" "shafts heavy_spec = 2"
    by (simp_all add: heavy_spec_def)
  ultimately have b: "select_propulsion sort_desc_stable ENGINE_CATALOG [GEARBOX_CATALOG ! 0] heavy_spec =
     Inr (NoGearboxFrame ''Engines matched, but no gearbox matched power/rpm constraints.''
            ''Add gearbox models to catalog or raise gearbox limits.'',
          heavy_total_kw, heavy_total_kw * (1.0 + 0.15), heavy_req, 1300)"
    by (simp add: heavy_req_def)
  from a b show ?thesis by (intro conjI)
qed

text \<open>
  The claim as stated has no condition on the target speed. A valid request that asks
  for the propeller speed 0, one engine passing the filter and a gearbox catalog holding
  only the ZF 45A: no pair survives, and the division by the target speed raises before
  any gearbox is looked at.
\<close>

theorem zero_target_rpm_counterexample:
  "valid_spec (heavy_spec\<lparr>desired_prop_rpm := Some 0\<rparr>) \<and>
   filter_engines ''diesel'' heavy_req 1000000000 1000000000 1000000000 ENGINE_CATALOG =
     [ENGINE_CATALOG ! 6] \<and>
   surviving_pairs [ENGINE_CATALOG ! 6] [GEARBOX_CATALOG ! 0] = [] \<and>
   select_propulsion sort_desc_stable ENGINE_CATALOG [GEARBOX_CATALOG ! 0]
     (heavy_spec\<lparr>desired_prop_rpm := Some 0\<rparr>) = Inl ZeroDivisionError"
proof -
  have v: "valid_spec (heavy_spec\<lparr>desired_prop_rpm := Some 0\<rparr>)"
    using heavy_spec_valid by (simp add: valid_spec_def)
  have e: "estimate_total_power_kw (heavy_spec\<lparr>desired_prop_rpm := Some 0\<rparr>) = Inr heavy_total_kw"
    using heavy_spec_estimate by (simp add: estimate_total_power_kw_def)
  have t: "choose_target_prop_rpm (heavy_spec\<lparr>desired_prop_rpm := Some 0\<rparr>) = 0"
    by (simp add: choose_target_prop_rpm_def)
  have s: "shafts (heavy_spec\<lparr>desired_prop_rpm := Some 0\<rparr>) \<noteq> 0"
    by (simp add: heavy_spec_def)
  have "select_propulsion sort_desc_stable ENGINE_CATALOG [GEARBOX_CATALOG ! 0]
     (heavy_spec\<lparr>desired_prop_rpm := Some 0\<rparr>) = Inl ZeroDivisionError"
    unfolding select_propulsion_def e
    by (simp only: Let_def sum.case s if_False heavy_zero_filter t engine_loop.simps)
       simp
  with v heavy_spec_engines heavy_no_pairs show ?thesis by (intro conjI)
qed

section \<open>Hull class normalisation\<close>

text \<open>
  C10. A request whose hull class is \<^verbatim>\<open>" planing"\<close> (a leading space) is accepted by the
  power estimate, which strips the string and uses the planing formula, while the target
  speed heuristic, which only lower-cases it, falls through to 1000 instead of the 1300
  or 1150 it gives for \<^verbatim>\<open>"planing"\<close>. For such a valid request and catalogs on which no
  pairing raises, \<^verbatim>\<open>select_propulsion\<close> returns with the planing figures and the target
  speed 1000.
\<close>

theorem hull_class_normalisation_differs:
  assumes "hull_type spec = '' planing''" and "desired_prop_rpm spec = None"
    and "valid_spec spec" and "catalogs_ok engines gbs"
  shows "choose_target_prop_rpm spec = 1000 \<and>
         choose_target_prop_rpm (spec\<lparr>hull_type := ''planing''\<rparr>) =
           (if displacement_tonnes spec < 30 then 1300 else 1150) \<and>
         estimate_total_power_kw spec =
           Inr (hp_to_kw (hp_plan (displacement_tonnes spec) (target_speed_kn spec))) \<and>
         (\<exists>df. select_propulsion sort_values engines gbs spec =
            Inr (df, hp_to_kw (hp_plan (displacement_tonnes spec) (target_speed_kn spec)),
                 hp_to_kw (hp_plan (displacement_tonnes spec) (target_speed_kn spec)) *
                   (1.0 + power_margin spec),
                 hp_to_kw (hp_plan (displacement_tonnes spec) (target_speed_kn spec)) *
                   (1.0 + power_margin spec) / real_of_int (shafts spec),
                 1000))"
proof -
  have t: "choose_target_prop_rpm spec = 1000"
    using assms(1,2) by (simp add: choose_target_prop_rpm_def string_eval)
  have t': "choose_target_prop_rpm (spec\<lparr>hull_type := ''planing''\<rparr>) =
           (if displacement_tonnes spec < 30 then 1300 else 1150)"
    using assms(2) by (simp add: choose_target_prop_rpm_def string_eval)
  have e: "estimate_total_power_kw spec =
           Inr (hp_to_kw (hp_plan (displacement_tonnes spec) (target_speed_kn spec)))"
    using assms(1) by (simp add: estimate_total_power_kw_def string_eval)
  from t have "choose_target_prop_rpm spec \<noteq> 0" by simp
  from select_propulsion_returns [OF assms(3,4) this, of sort_values] e t
  have "\<exists>df. select_propulsion sort_values engines gbs spec =
            Inr (df, hp_to_kw (hp_plan (displacement_tonnes spec) (target_speed_kn spec)),
                 hp_to_kw (hp_plan (displacement_tonnes spec) (target_speed_kn spec)) *
                   (1.0 + power_margin spec),
                 hp_to_kw (hp_plan (displacement_tonnes spec) (target_speed_kn spec)) *
                   (1.0 + power_margin spec) / real_of_int (shafts spec),
                 1000)"
    by auto
  with t t' e show ?thesis by (intro conjI)
qed

theorem hull_class_normalisation_differs_witness:
  "valid_spec (tie_spec\<lparr>hull_type := '' planing''\<rparr>) \<and>
   choose_target_prop_rpm (tie_spec\<lparr>hull_type := '' planing''\<rparr>) = 1000 \<and>
   choose_target_prop_rpm (tie_spec\<lparr>hull_type := ''planing''\<rparr>) = 1300 \<and>
   estimate_total_power_kw (tie_spec\<lparr>hull_type := '' planing''\<rparr>) = Inr (hp_to_kw (hp_plan 10 10)) \<and>
   (\<exists>df. select_propulsion sort_desc_stable ENGINE_CATALOG GEARBOX_CATALOG
            (tie_spec\<lparr>hull_type := '' planing''\<rparr>) =
          Inr (df, hp_to_kw (hp_plan 10 10), hp_to_kw (hp_plan 10 10) * (1.0 + 0.15),
               hp_to_kw (hp_plan 10 10) * (1.0 + 0.15) / 2, 1000))"
proof -
  let ?s = "tie_spec\<lparr>hull_type := '' planing''\<rparr>"
  have h: "hull_type ?s = '' planing''" and d: "desired_prop_rpm ?s = None"
    by (simp_all add: tie_spec_def)
  have v: "valid_spec ?s"
    by (simp add: valid_spec_def recognised_hull_def tie_spec_def string_eval)
  from hull_class_normalisation_differs [OF h d v shipped_catalogs_ok, of sort_desc_stable] v
  show ?thesis by (simp add: tie_spec_def)
qed

end
